theory Spec2Isabelle
  imports Main "HOL-Library.Sublist"
begin

section \<open>Errors as values\<close>

text \<open>
  A Go \<open>error\<close> is a value; \<open>nil\<close> is \<open>None\<close> of \<open>error option\<close>.  The constructors are
  the sentinels the repository declares or tests against, \<open>errors.New\<close>, the wrapping
  \<open>fmt.Errorf\<close> with \<open>%w\<close> (\<open>Errorf\<close>: the format and the wrapped error; \<open>Errorf2\<close>: the
  format, its one string argument and the wrapped error), \<open>fs.PathError\<close>, \<open>syscall.EPERM\<close>,
  and \<open>External\<close> for an error value produced by a collaborator outside the repository.
\<close>

datatype error =
    ErrNotExist
  | ErrPathMustBeDirectory
  | ErrKustomizeWarnings
  | ErrorsNew string
  | Errorf string error
  | Errorf2 string string error
  | PathError string string error
  | EPERM
  | External nat


text \<open>
  \<open>os.IsNotExist\<close>: looks through one \<open>PathError\<close> only (not through \<open>fmt.Errorf\<close>
  wrappers) and compares with \<open>fs.ErrNotExist\<close>.
\<close>

fun os_IsNotExist :: "error \<Rightarrow> bool" where
  "os_IsNotExist (PathError op p e) = (e = ErrNotExist)"
| "os_IsNotExist e = (e = ErrNotExist)"

section \<open>Cache keys (pkg/kustomize\_cache.go)\<close>

record KustomizationSpec =
  Path :: string
  Values :: "string \<rightharpoonup> string"


definition FastCacheKey :: "KustomizationSpec \<Rightarrow> string" where
  "FastCacheKey spec = Path spec"




section \<open>Storage backends (github.com/spf13/afero, as used by pkg/fs)\<close>

type_synonym path = string
type_synonym bytes = string

text \<open>
  A backend keeps its content in a store: the disk for \<open>afero.OsFs\<close>, one store per
  \<open>afero.MemMapFs\<close> object.  Two filesystem values that hold the same \<open>MemMapFs\<close> pointer share
  its store, which is why stores live in the world, under the pointer's address.
  \<open>fresh\<close> is the next unused address.
\<close>

datatype loc = Disk | Mem nat

record 't world =
  store :: "loc \<Rightarrow> 't"
  fresh :: nat

datatype afero_fs =
    OsFs
  | MemMapFs nat
  | ReadOnlyFs afero_fs
  | CopyOnWriteFs afero_fs afero_fs

datatype afero_File = File afero_fs path

datatype mut_op =
    OpCreate path
  | OpMkdir path
  | OpMkdirAll path
  | OpRemoveAll path
  | OpWriteFile path bytes

type_synonym walkfn = "path \<Rightarrow> (error + bool) \<Rightarrow> error option"

text \<open>
  What lies outside the repository is a parameter: how one store answers each operation
  (\<open>st_...\<close>; \<open>st_Stat\<close> returns \<open>FileInfo.IsDir\<close>), the afero helpers that list and walk a
  filesystem (\<open>util_...\<close>), and the path functions of \<open>path/filepath\<close> (\<open>fp_...\<close>).
\<close>

record 't afero_lib =
  st_empty :: 't
  st_Stat :: "path \<Rightarrow> 't \<Rightarrow> error + bool"
  st_ReadFile :: "path \<Rightarrow> 't \<Rightarrow> error + bytes"
  st_Create :: "path \<Rightarrow> 't \<Rightarrow> error option \<times> 't"
  st_Mkdir :: "path \<Rightarrow> 't \<Rightarrow> error option \<times> 't"
  st_MkdirAll :: "path \<Rightarrow> 't \<Rightarrow> error option \<times> 't"
  st_RemoveAll :: "path \<Rightarrow> 't \<Rightarrow> error option \<times> 't"
  st_WriteFile :: "path \<Rightarrow> bytes \<Rightarrow> 't \<Rightarrow> error option \<times> 't"
  util_ReadDir :: "afero_fs \<Rightarrow> path \<Rightarrow> 't world \<Rightarrow> error + string list"
  util_Glob :: "afero_fs \<Rightarrow> string \<Rightarrow> 't world \<Rightarrow> error + string list"
  util_Walk :: "afero_fs \<Rightarrow> path \<Rightarrow> walkfn \<Rightarrow> 't world \<Rightarrow> error option"
  fp_Abs :: "path \<Rightarrow> error + path"
  fp_EvalSymlinks :: "path \<Rightarrow> 't \<Rightarrow> error + path"
  fp_Dir :: "path \<Rightarrow> path"
  fp_Base :: "path \<Rightarrow> path"
  fp_Join :: "path \<Rightarrow> path \<Rightarrow> path"

fun st_apply :: "'t afero_lib \<Rightarrow> mut_op \<Rightarrow> 't \<Rightarrow> error option \<times> 't" where
  "st_apply L (OpCreate p) t = st_Create L p t"
| "st_apply L (OpMkdir p) t = st_Mkdir L p t"
| "st_apply L (OpMkdirAll p) t = st_MkdirAll L p t"
| "st_apply L (OpRemoveAll p) t = st_RemoveAll L p t"
| "st_apply L (OpWriteFile p d) t = st_WriteFile L p d t"

definition at_loc :: "loc \<Rightarrow> ('t \<Rightarrow> error option \<times> 't) \<Rightarrow> 't world \<Rightarrow> error option \<times> 't world" where
  "at_loc l f w = (case f (store w l) of (r, t') \<Rightarrow> (r, w\<lparr>store := (store w)(l := t')\<rparr>))"

text \<open>
  The layered backends.  \<open>ReadOnlyFs\<close> refuses every mutation with \<open>syscall.EPERM\<close> and reads
  its source.  \<open>CopyOnWriteFs base layer\<close> is modelled by the contract NewFs states for it:
  writes go to the overlay, reads check the overlay first and fall back to the base when the
  overlay does not have the path.
\<close>

fun afero_mutate :: "'t afero_lib \<Rightarrow> afero_fs \<Rightarrow> mut_op \<Rightarrow> 't world \<Rightarrow> error option \<times> 't world" where
  "afero_mutate L OsFs op w = at_loc Disk (st_apply L op) w"
| "afero_mutate L (MemMapFs n) op w = at_loc (Mem n) (st_apply L op) w"
| "afero_mutate L (ReadOnlyFs f) op w = (Some EPERM, w)"
| "afero_mutate L (CopyOnWriteFs b l) op w = afero_mutate L l op w"

fun afero_Stat :: "'t afero_lib \<Rightarrow> afero_fs \<Rightarrow> path \<Rightarrow> 't world \<Rightarrow> error + bool" where
  "afero_Stat L OsFs p w = st_Stat L p (store w Disk)"
| "afero_Stat L (MemMapFs n) p w = st_Stat L p (store w (Mem n))"
| "afero_Stat L (ReadOnlyFs f) p w = afero_Stat L f p w"
| "afero_Stat L (CopyOnWriteFs b l) p w =
    (case afero_Stat L l p w of
       Inr info \<Rightarrow> Inr info
     | Inl e \<Rightarrow> if os_IsNotExist e then afero_Stat L b p w else Inl e)"

fun afero_ReadFile :: "'t afero_lib \<Rightarrow> afero_fs \<Rightarrow> path \<Rightarrow> 't world \<Rightarrow> error + bytes" where
  "afero_ReadFile L OsFs p w = st_ReadFile L p (store w Disk)"
| "afero_ReadFile L (MemMapFs n) p w = st_ReadFile L p (store w (Mem n))"
| "afero_ReadFile L (ReadOnlyFs f) p w = afero_ReadFile L f p w"
| "afero_ReadFile L (CopyOnWriteFs b l) p w =
    (case afero_Stat L l p w of
       Inr info \<Rightarrow> afero_ReadFile L l p w
     | Inl e \<Rightarrow> if os_IsNotExist e then afero_ReadFile L b p w else Inl e)"

fun afero_Open :: "'t afero_lib \<Rightarrow> afero_fs \<Rightarrow> path \<Rightarrow> 't world \<Rightarrow> error + afero_File" where
  "afero_Open L OsFs p w =
    (case st_Stat L p (store w Disk) of Inl e \<Rightarrow> Inl e | Inr info \<Rightarrow> Inr (File OsFs p))"
| "afero_Open L (MemMapFs n) p w =
    (case st_Stat L p (store w (Mem n)) of Inl e \<Rightarrow> Inl e | Inr info \<Rightarrow> Inr (File (MemMapFs n) p))"
| "afero_Open L (ReadOnlyFs f) p w = afero_Open L f p w"
| "afero_Open L (CopyOnWriteFs b l) p w =
    (case afero_Stat L l p w of
       Inr info \<Rightarrow> afero_Open L l p w
     | Inl e \<Rightarrow> if os_IsNotExist e then afero_Open L b p w else Inl e)"

definition afero_Create :: "'t afero_lib \<Rightarrow> afero_fs \<Rightarrow> path \<Rightarrow> 't world \<Rightarrow> (error + afero_File) \<times> 't world" where
  "afero_Create L f p w =
    (case afero_mutate L f (OpCreate p) w of
       (Some e, w') \<Rightarrow> (Inl e, w')
     | (None, w') \<Rightarrow> (Inr (File f p), w'))"

section \<open>The filesystem interface and the adapter (pkg/fs/adapter/adapter.go)\<close>

text \<open>
  \<open>filesys.FileSystem\<close> is an interface: a value of it is the record of its methods.
  \<open>Unwrap\<close> is the optional method that NewFs and NewReadOnlyFs look for with a type
  assertion; an implementation without it has \<open>None\<close>.
\<close>

record 't FileSystem =
  Create :: "path \<Rightarrow> 't world \<Rightarrow> (error + afero_File) \<times> 't world"
  Mkdir :: "path \<Rightarrow> 't world \<Rightarrow> error option \<times> 't world"
  MkdirAll :: "path \<Rightarrow> 't world \<Rightarrow> error option \<times> 't world"
  RemoveAll :: "path \<Rightarrow> 't world \<Rightarrow> error option \<times> 't world"
  Open :: "path \<Rightarrow> 't world \<Rightarrow> error + afero_File"
  Exists :: "path \<Rightarrow> 't world \<Rightarrow> bool"
  IsDir :: "path \<Rightarrow> 't world \<Rightarrow> bool"
  ReadDir :: "path \<Rightarrow> 't world \<Rightarrow> error + string list"
  ReadFile :: "path \<Rightarrow> 't world \<Rightarrow> error + bytes"
  WriteFile :: "path \<Rightarrow> bytes \<Rightarrow> 't world \<Rightarrow> error option \<times> 't world"
  Glob :: "string \<Rightarrow> 't world \<Rightarrow> error + string list"
  Walk :: "path \<Rightarrow> walkfn \<Rightarrow> 't world \<Rightarrow> error option"
  CleanedAbs :: "path \<Rightarrow> 't world \<Rightarrow> error + path \<times> string"
  Unwrap :: "afero_fs option"

definition Adapter_CleanedAbs :: "'t afero_lib \<Rightarrow> afero_fs \<Rightarrow> path \<Rightarrow> 't world \<Rightarrow> error + path \<times> string" where
  "Adapter_CleanedAbs L a path0 w =
    (let path = (if path0 = [] then ''.'' else path0) in
     case fp_Abs L path of
       Inl err \<Rightarrow> Inl (Errorf2 ''abs path error on %q: %w'' path err)
     | Inr absPath \<Rightarrow>
        (case (if a = OsFs then fp_EvalSymlinks L absPath (store w Disk) else Inr absPath) of
           Inl err \<Rightarrow> Inl (Errorf2 ''evalsymlink failure on %q: %w'' path err)
         | Inr resolvedPath \<Rightarrow>
            (case afero_Stat L a resolvedPath w of
               Inl err \<Rightarrow>
                 if os_IsNotExist err then Inl (PathError ''stat'' path ErrNotExist)
                 else Inl (Errorf2 ''stat error on %q: %w'' path err)
             | Inr isDir \<Rightarrow>
                 if isDir then Inr (resolvedPath, [])
                 else Inr (fp_Dir L resolvedPath, fp_Base L resolvedPath))))"

definition adapter_New :: "'t afero_lib \<Rightarrow> afero_fs \<Rightarrow> 't FileSystem" where
  "adapter_New L a =
    \<lparr> Create = afero_Create L a,
      Mkdir = (\<lambda>p. afero_mutate L a (OpMkdir p)),
      MkdirAll = (\<lambda>p. afero_mutate L a (OpMkdirAll p)),
      RemoveAll = (\<lambda>p. afero_mutate L a (OpRemoveAll p)),
      Open = afero_Open L a,
      Exists = (\<lambda>p w. case afero_Stat L a p w of Inl err \<Rightarrow> False | Inr info \<Rightarrow> True),
      IsDir = (\<lambda>p w. case afero_Stat L a p w of Inl err \<Rightarrow> False | Inr info \<Rightarrow> info),
      ReadDir = util_ReadDir L a,
      ReadFile = afero_ReadFile L a,
      WriteFile = (\<lambda>p d. afero_mutate L a (OpWriteFile p d)),
      Glob = util_Glob L a,
      Walk = util_Walk L a,
      CleanedAbs = Adapter_CleanedAbs L a,
      Unwrap = Some a \<rparr>"

section \<open>Constructors and the read-only wrapper (pkg/util/fs/fs.go)\<close>

definition NewFsOnDisk :: "'t afero_lib \<Rightarrow> 't FileSystem" where
  "NewFsOnDisk L = adapter_New L OsFs"

definition NewMemoryFs :: "'t afero_lib \<Rightarrow> 't world \<Rightarrow> 't FileSystem \<times> 't world" where
  "NewMemoryFs L w =
    (adapter_New L (MemMapFs (fresh w)),
     w\<lparr>store := (store w)(Mem (fresh w) := st_empty L), fresh := Suc (fresh w)\<rparr>)"




section \<open>The union filesystem (package union)\<close>

datatype 't union_Option =
    WithOverride path bytes
  | WithOverrides "(path \<times> bytes) list"
  | WithOverlayFs "'t FileSystem"

text \<open>
  \<open>config.overrides\<close> is a Go map; it is kept as an association list with one entry per key.
  Go leaves the order in which \<open>range\<close> visits a map unspecified; the list order stands for
  the order of one run.
\<close>

record 't config =
  overrides :: "(path \<times> bytes) list"
  overlay :: "'t FileSystem option"

fun assoc_set :: "'k \<Rightarrow> 'v \<Rightarrow> ('k \<times> 'v) list \<Rightarrow> ('k \<times> 'v) list" where
  "assoc_set k v [] = [(k, v)]"
| "assoc_set k v ((k', v') # kvs) =
    (if k' = k then (k, v) # kvs else (k', v') # assoc_set k v kvs)"

fun apply_Option :: "'t union_Option \<Rightarrow> 't config \<Rightarrow> 't config" where
  "apply_Option (WithOverride p content) cfg = cfg\<lparr>overrides := assoc_set p content (overrides cfg)\<rparr>"
| "apply_Option (WithOverrides kvs) cfg =
    cfg\<lparr>overrides := fold (\<lambda>kv acc. assoc_set (fst kv) (snd kv) acc) kvs (overrides cfg)\<rparr>"
| "apply_Option (WithOverlayFs ov) cfg = cfg\<lparr>overlay := Some ov\<rparr>"

fun write_overrides :: "'t FileSystem \<Rightarrow> (path \<times> bytes) list \<Rightarrow> 't world \<Rightarrow> error option \<times> 't world" where
  "write_overrides ov [] w = (None, w)"
| "write_overrides ov ((p, content) # rest) w =
    (case WriteFile ov p content w of
       (Some err, w') \<Rightarrow> (Some (Errorf2 ''failed to write override %s: %w'' p err), w')
     | (None, w') \<Rightarrow> write_overrides ov rest w')"

definition NewFs :: "'t afero_lib \<Rightarrow> 't FileSystem \<Rightarrow> 't union_Option list \<Rightarrow> 't world \<Rightarrow> (error + 't FileSystem) \<times> 't world" where
  "NewFs L base options w =
    (let cfg = fold apply_Option options \<lparr>overrides = [], overlay = None\<rparr> in
     case (case overlay cfg of
             Some ov \<Rightarrow> (Inr ov, w)
           | None \<Rightarrow>
              (case NewMemoryFs L w of
                 (ov, w0) \<Rightarrow>
                   (case write_overrides ov (overrides cfg) w0 of
                      (Some err, w1) \<Rightarrow> (Inl err, w1)
                    | (None, w1) \<Rightarrow> (Inr ov, w1)))) of
       (Inl err, w1) \<Rightarrow> (Inl err, w1)
     | (Inr ov, w1) \<Rightarrow>
        (case Unwrap base of
           None \<Rightarrow> (Inl (ErrorsNew ''base filesystem must be created with fs package functions''), w1)
         | Some baseFs \<Rightarrow>
            (case Unwrap ov of
               None \<Rightarrow> (Inl (ErrorsNew ''overlay filesystem must be created with fs package functions''), w1)
             | Some overlayFs \<Rightarrow> (Inr (adapter_New L (CopyOnWriteFs baseFs overlayFs)), w1))))"

text \<open>The overlay that the options select: the last WithOverlayFs, if there is one.\<close>

fun given_overlay :: "'t union_Option list \<Rightarrow> 't FileSystem option" where
  "given_overlay [] = None"
| "given_overlay (WithOverlayFs ov # rest) =
    (case given_overlay rest of None \<Rightarrow> Some ov | Some ov' \<Rightarrow> Some ov')"
| "given_overlay (WithOverride p content # rest) = given_overlay rest"
| "given_overlay (WithOverrides kvs # rest) = given_overlay rest"

text \<open>
  A mutating call through the interface, and a sequence of them; a call that fails does not
  stop the caller from making the next one.
\<close>

fun fs_mutate :: "'t FileSystem \<Rightarrow> mut_op \<Rightarrow> 't world \<Rightarrow> error option \<times> 't world" where
  "fs_mutate fsys (OpCreate p) w =
    (case Create fsys p w of (Inl err, w') \<Rightarrow> (Some err, w') | (Inr f, w') \<Rightarrow> (None, w'))"
| "fs_mutate fsys (OpMkdir p) w = Mkdir fsys p w"
| "fs_mutate fsys (OpMkdirAll p) w = MkdirAll fsys p w"
| "fs_mutate fsys (OpRemoveAll p) w = RemoveAll fsys p w"
| "fs_mutate fsys (OpWriteFile p d) w = WriteFile fsys p d w"

fun fs_mutate_all :: "'t FileSystem \<Rightarrow> mut_op list \<Rightarrow> 't world \<Rightarrow> 't world" where
  "fs_mutate_all fsys [] w = w"
| "fs_mutate_all fsys (op # ops) w = fs_mutate_all fsys ops (snd (fs_mutate fsys op w))"

text \<open>The stores a backend reads, and the stores a mutation through it can reach.\<close>

fun locs :: "afero_fs \<Rightarrow> loc set" where
  "locs OsFs = {Disk}"
| "locs (MemMapFs n) = {Mem n}"
| "locs (ReadOnlyFs f) = locs f"
| "locs (CopyOnWriteFs b l) = locs b \<union> locs l"

fun wlocs :: "afero_fs \<Rightarrow> loc set" where
  "wlocs OsFs = {Disk}"
| "wlocs (MemMapFs n) = {Mem n}"
| "wlocs (ReadOnlyFs f) = {}"
| "wlocs (CopyOnWriteFs b l) = wlocs l"

text \<open>
  A small in-memory store for concrete runs: a table from path to node, where writing a
  file and reading it back gives the data (as TestNewMemoryFs expects of the in-memory
  backend), and the path functions work on absolute slash-separated paths.
\<close>

datatype node = DirNode | FileNode bytes

definition table_lib :: "(path \<times> node) list afero_lib" where
  "table_lib =
    \<lparr> st_empty = [],
      st_Stat = (\<lambda>p t. case map_of t p of
                          Some DirNode \<Rightarrow> Inr True
                        | Some (FileNode d) \<Rightarrow> Inr False
                        | None \<Rightarrow> Inl (PathError ''stat'' p ErrNotExist)),
      st_ReadFile = (\<lambda>p t. case map_of t p of
                          Some (FileNode d) \<Rightarrow> Inr d
                        | Some DirNode \<Rightarrow> Inl (PathError ''read'' p (External 21))
                        | None \<Rightarrow> Inl (PathError ''open'' p ErrNotExist)),
      st_Create = (\<lambda>p t. (None, assoc_set p (FileNode []) t)),
      st_Mkdir = (\<lambda>p t. (None, assoc_set p DirNode t)),
      st_MkdirAll = (\<lambda>p t. (None, assoc_set p DirNode t)),
      st_RemoveAll = (\<lambda>p t. (None, filter (\<lambda>kv. \<not> prefix p (fst kv)) t)),
      st_WriteFile = (\<lambda>p d t. (None, assoc_set p (FileNode d) t)),
      util_ReadDir = (\<lambda>a p w. Inr []),
      util_Glob = (\<lambda>a pat w. Inr []),
      util_Walk = (\<lambda>a p fn w. None),
      fp_Abs = (\<lambda>p. Inr p),
      fp_EvalSymlinks = (\<lambda>p t. Inr p),
      fp_Dir = (\<lambda>p. butlast (rev (dropWhile (\<lambda>c. c \<noteq> CHR ''/'') (rev p)))),
      fp_Base = (\<lambda>p. rev (takeWhile (\<lambda>c. c \<noteq> CHR ''/'') (rev p))),
      fp_Join = (\<lambda>d f. d @ ''/'' @ f) \<rparr>"

section \<open>Suppressing stderr (pkg/util/io/io.go)\<close>

text \<open>
  The process state: the package variable \<open>os.Stderr\<close> (a file, named by a number) and the
  rest of the operating-system state \<open>World\<close>, on which \<open>os.Pipe\<close> and \<open>Close\<close> act.
  The wrapped function may do anything to the whole state, and either returns its error or
  panics.  The goroutine that drains the pipe touches neither \<open>os.Stderr\<close> nor the result and
  is left out.
\<close>

record 'w process =
  Stderr :: nat
  World :: 'w

datatype 'a outcome = Returns 'a | Panics string

definition SuppressStderr ::
  "('w \<Rightarrow> (error + nat \<times> nat) \<times> 'w) \<Rightarrow> (nat \<Rightarrow> 'w \<Rightarrow> 'w) \<Rightarrow>
   ('w process \<Rightarrow> (error option) outcome \<times> 'w process) \<Rightarrow> 'w process
   \<Rightarrow> (error option) outcome \<times> 'w process" where
  "SuppressStderr os_Pipe file_Close fn s =
    (let oldStderr = Stderr s in
     case os_Pipe (World s) of
       (Inl err, w1) \<Rightarrow> (Returns (Some (Errorf ''failed to create pipe: %w'' err)), s\<lparr>World := w1\<rparr>)
     | (Inr (r, w), w1) \<Rightarrow>
         (case fn (s\<lparr>World := w1, Stderr := w\<rparr>) of
            (out, s2) \<Rightarrow>
              (out, s2\<lparr>Stderr := oldStderr, World := file_Close r (file_Close w (World s2))\<rparr>)))"

section \<open>Warning handlers\<close>

text \<open>
  The state of a render: the package variable \<open>os.Stderr\<close> and, as the world, the
  filesystem stores, the local variable \<open>resMap\<close> that the closure passed to SuppressStderr
  assigns, and the rest of the operating-system state.
\<close>

datatype LoadRestrictions = LoadRestrictionsUnknown | LoadRestrictionsRootOnly | LoadRestrictionsNone

record resource =
  res_Map :: "error + string"
  res_Origin :: "error + path option"
  res_CurId :: string

record ('t, 'o) rworld =
  fsw :: "'t world"
  resMap_var :: "resource list"
  os :: 'o

type_synonym ('t, 'o) rstate = "('t, 'o) rworld process"

type_synonym ('t, 'o) WarningHandler = "string list \<Rightarrow> ('t, 'o) rstate \<Rightarrow> error option \<times> ('t, 'o) rstate"

type_synonym ('t, 'o) Writer = "string \<Rightarrow> ('t, 'o) rstate \<Rightarrow> error option \<times> ('t, 'o) rstate"

fun strings_Join :: "string list \<Rightarrow> string \<Rightarrow> string" where
  "strings_Join [] sep = []"
| "strings_Join [x] sep = x"
| "strings_Join (x # y # ys) sep = x @ sep @ strings_Join (y # ys) sep"

definition WarningIgnore :: "('t, 'o) WarningHandler" where
  "WarningIgnore warnings s = (None, s)"

fun WarningLog :: "('t, 'o) Writer \<Rightarrow> ('t, 'o) WarningHandler" where
  "WarningLog wr [] s = (None, s)"
| "WarningLog wr (msg # rest) s =
    (case wr (msg @ [CHR 0x0A]) s of
       (Some err, s') \<Rightarrow> (Some (Errorf ''failed to write warning: %w'' err), s')
     | (None, s') \<Rightarrow> WarningLog wr rest s')"

definition WarningFail :: "('t, 'o) WarningHandler" where
  "WarningFail warnings s =
    (if length warnings > 0
     then (Some (Errorf2 ''%w:<LF>%s'' (strings_Join warnings [CHR 0x0A]) ErrKustomizeWarnings), s)
     else (None, s))"

section \<open>The engine\<close>

record Source =
  Source_Path :: path
  Source_LoadRestrictions :: LoadRestrictions

record Kustomization =
  BuildMetadata :: "string list"
  OtherFields :: string

record Unstructured =
  Annotations :: "(string \<rightharpoonup> string) option"
  Object :: string

definition OriginAnnotations :: string where
  "OriginAnnotations = ''originAnnotations''"

definition GetAnnotations :: "Unstructured \<Rightarrow> (string \<rightharpoonup> string) option" where
  "GetAnnotations obj = Annotations obj"

definition SetAnnotations :: "Unstructured \<Rightarrow> (string \<rightharpoonup> string) option \<Rightarrow> Unstructured" where
  "SetAnnotations obj m = obj\<lparr>Annotations := m\<rparr>"

record ('t, 'o) RendererOptions =
  Plugins :: "(resource list \<Rightarrow> error option \<times> resource list) list"
  SourceAnnotations :: bool
  LoadRestrictions :: LoadRestrictions
  WarningHandler :: "('t, 'o) WarningHandler option"

record ('t, 'o) Engine =
  fs :: "'t FileSystem"
  opts :: "('t, 'o) RendererOptions"

text \<open>
  The collaborators of the engine that are not in the files at hand: the operating system
  (\<open>os.Pipe\<close>, closing and writing a file), the kustomize library (the builder
  \<open>kustomizer.Run\<close>, which may also panic, \<open>CheckDeprecatedFields\<close>), the YAML encoder, the
  conversion to an unstructured object, the annotation names of the engine's \<open>types\<close> package,
  and the helpers \<open>readKustomization\<close> and \<open>createValuesConfigMapYAML\<close>.
\<close>

record ('t, 'o) engine_env =
  lib :: "'t afero_lib"
  os_Pipe :: "('t, 'o) rworld \<Rightarrow> (error + nat \<times> nat) \<times> ('t, 'o) rworld"
  file_Close :: "nat \<Rightarrow> ('t, 'o) rworld \<Rightarrow> ('t, 'o) rworld"
  file_Write :: "nat \<Rightarrow> string \<Rightarrow> ('t, 'o) rworld \<Rightarrow> error option \<times> ('t, 'o) rworld"
  readKustomization :: "'t FileSystem \<Rightarrow> path \<Rightarrow> 't world \<Rightarrow> error + Kustomization \<times> string"
  CheckDeprecatedFields :: "Kustomization \<Rightarrow> string list option"
  yaml_Marshal :: "Kustomization \<Rightarrow> error + bytes"
  createValuesConfigMapYAML :: "(string \<rightharpoonup> string) \<Rightarrow> error + bytes"
  kustomizer_Run :: "LoadRestrictions \<Rightarrow> 't FileSystem \<Rightarrow> path \<Rightarrow> ('t, 'o) rstate
                      \<Rightarrow> (error + resource list) outcome \<times> ('t, 'o) rstate"
  FromUnstructured :: "string \<Rightarrow> error + Unstructured"
  AnnotationSourceType :: string
  AnnotationSourcePath :: string
  AnnotationSourceFile :: string
  rendererType :: string

definition stderr_Writer :: "('t, 'o) engine_env \<Rightarrow> nat \<Rightarrow> ('t, 'o) Writer" where
  "stderr_Writer E f data s =
    (case file_Write E f data (World s) of (r, w') \<Rightarrow> (r, s\<lparr>World := w'\<rparr>))"

text \<open>
  The overrides that prepareFilesystem collects (the rewritten kustomization, the values
  ConfigMap), and whether the origin annotations were added.
\<close>

definition synthetic_overrides ::
  "('t, 'o) engine_env \<Rightarrow> ('t, 'o) Engine \<Rightarrow> path \<Rightarrow> Kustomization \<Rightarrow> string \<Rightarrow> (string \<rightharpoonup> string)
   \<Rightarrow> error + 't union_Option list \<times> bool" where
  "synthetic_overrides E e p kust kustName vals =
    (case (if SourceAnnotations (opts e) \<and> OriginAnnotations \<notin> set (BuildMetadata kust)
           then (case yaml_Marshal E (kust\<lparr>BuildMetadata := BuildMetadata kust @ [OriginAnnotations]\<rparr>) of
                   Inl err \<Rightarrow> Inl (Errorf ''failed to marshal kustomization: %w'' err)
                 | Inr data \<Rightarrow> Inr ([WithOverride (fp_Join (lib E) p kustName) data], True))
           else Inr ([], False)) of
       Inl err \<Rightarrow> Inl err
     | Inr (options, addedOriginAnnotations) \<Rightarrow>
        (if vals \<noteq> Map.empty
         then (case createValuesConfigMapYAML E vals of
                 Inl err \<Rightarrow> Inl (Errorf ''failed to create values ConfigMap: %w'' err)
               | Inr valuesContent \<Rightarrow>
                   Inr (options @ [WithOverride (fp_Join (lib E) p ''values.yaml'') valuesContent],
                        addedOriginAnnotations))
         else Inr (options, addedOriginAnnotations)))"

definition prepareFilesystem ::
  "('t, 'o) engine_env \<Rightarrow> ('t, 'o) Engine \<Rightarrow> path \<Rightarrow> Kustomization \<Rightarrow> string \<Rightarrow> (string \<rightharpoonup> string)
   \<Rightarrow> 't world \<Rightarrow> (error + 't FileSystem \<times> bool) \<times> 't world" where
  "prepareFilesystem E e inputPath kust kustName vals w =
    (if \<not> SourceAnnotations (opts e) \<and> vals = Map.empty then (Inr (fs e, False), w)
     else case CleanedAbs (fs e) inputPath w of
       Inl err \<Rightarrow> (Inl (Errorf2 ''failed to resolve path %q: %w'' inputPath err), w)
     | Inr (p, f) \<Rightarrow>
        if f \<noteq> [] then (Inl (Errorf2 ''path %q: %w'' inputPath ErrPathMustBeDirectory), w)
        else (case synthetic_overrides E e p kust kustName vals of
                Inl err \<Rightarrow> (Inl err, w)
              | Inr (options, addedOriginAnnotations) \<Rightarrow>
                 (case NewFs (lib E) (fs e) options w of
                    (Inl err, w') \<Rightarrow> (Inl (Errorf ''failed to create union filesystem: %w'' err), w')
                  | (Inr fsys, w') \<Rightarrow> (Inr (fsys, addedOriginAnnotations), w'))))"

definition addSourceAnnotationsToObject ::
  "('t, 'o) engine_env \<Rightarrow> ('t, 'o) Engine \<Rightarrow> Unstructured \<Rightarrow> path \<Rightarrow> resource \<Rightarrow> Unstructured" where
  "addSourceAnnotationsToObject E e obj inputPath res =
    (if \<not> SourceAnnotations (opts e) then obj
     else
       let annotations = (case GetAnnotations obj of None \<Rightarrow> Map.empty | Some m \<Rightarrow> m);
           annotations1 = annotations(AnnotationSourceType E \<mapsto> rendererType E);
           annotations2 = annotations1(AnnotationSourcePath E \<mapsto> inputPath);
           annotations3 = (case res_Origin res of
                             Inr (Some originPath) \<Rightarrow> annotations2(AnnotationSourceFile E \<mapsto> originPath)
                           | _ \<Rightarrow> annotations2)
       in SetAnnotations obj (Some annotations3))"

definition removeOriginAnnotation :: "Unstructured \<Rightarrow> Unstructured" where
  "removeOriginAnnotation obj =
    (case GetAnnotations obj of
       None \<Rightarrow> obj
     | Some annotations \<Rightarrow> SetAnnotations obj (Some (annotations(''config.kubernetes.io/origin'' := None))))"

fun convertResources ::
  "('t, 'o) engine_env \<Rightarrow> ('t, 'o) Engine \<Rightarrow> resource list \<Rightarrow> path \<Rightarrow> error + Unstructured list" where
  "convertResources E e [] inputPath = Inr []"
| "convertResources E e (res # rest) inputPath =
    (case res_Map res of
       Inl err \<Rightarrow> Inl (Errorf2 ''failed to convert resource %s to map: %w'' (res_CurId res) err)
     | Inr m \<Rightarrow>
        (case FromUnstructured E m of
           Inl err \<Rightarrow> Inl (Errorf2 ''failed to convert map to unstructured for resource %s: %w'' (res_CurId res) err)
         | Inr obj \<Rightarrow>
            (case convertResources E e rest inputPath of
               Inl err \<Rightarrow> Inl err
             | Inr objs \<Rightarrow> Inr (addSourceAnnotationsToObject E e obj inputPath res # objs))))"

fun apply_plugins ::
  "(resource list \<Rightarrow> error option \<times> resource list) list \<Rightarrow> path \<Rightarrow> resource list \<Rightarrow> error + resource list" where
  "apply_plugins [] inputPath rm = Inr rm"
| "apply_plugins (t # ts) inputPath rm =
    (case t rm of
       (Some err, rm') \<Rightarrow> Inl (Errorf2 ''failed to apply kustomize plugin transformer for path %q: %w'' inputPath err)
     | (None, rm') \<Rightarrow> apply_plugins ts inputPath rm')"

text \<open>The closure that Run hands to SuppressStderr: it calls the builder and assigns \<open>resMap\<close>.\<close>

definition run_closure ::
  "('t, 'o) engine_env \<Rightarrow> LoadRestrictions \<Rightarrow> 't FileSystem \<Rightarrow> path \<Rightarrow> ('t, 'o) rstate
   \<Rightarrow> (error option) outcome \<times> ('t, 'o) rstate" where
  "run_closure E restrictions fsys inputPath s =
    (case kustomizer_Run E restrictions fsys inputPath s of
       (Panics msg, s') \<Rightarrow> (Panics msg, s')
     | (Returns (Inl runErr), s') \<Rightarrow>
         (Returns (Some (Errorf ''kustomizer run failed: %w'' runErr)), s'\<lparr>World := (World s')\<lparr>resMap_var := []\<rparr>\<rparr>)
     | (Returns (Inr rm), s') \<Rightarrow> (Returns None, s'\<lparr>World := (World s')\<lparr>resMap_var := rm\<rparr>\<rparr>))"

definition handle_warnings ::
  "('t, 'o) engine_env \<Rightarrow> ('t, 'o) Engine \<Rightarrow> Kustomization \<Rightarrow> ('t, 'o) rstate \<Rightarrow> error option \<times> ('t, 'o) rstate" where
  "handle_warnings E e kust s =
    (case CheckDeprecatedFields E kust of
       None \<Rightarrow> (None, s)
     | Some warnings \<Rightarrow>
        if length warnings > 0
        then (let handler = (case WarningHandler (opts e) of
                               None \<Rightarrow> WarningLog (stderr_Writer E (Stderr s))
                             | Some h \<Rightarrow> h)
              in handler warnings s)
        else (None, s))"

definition Run ::
  "('t, 'o) engine_env \<Rightarrow> ('t, 'o) Engine \<Rightarrow> Source \<Rightarrow> (string \<rightharpoonup> string) \<Rightarrow> ('t, 'o) rstate
   \<Rightarrow> (error + Unstructured list) outcome \<times> ('t, 'o) rstate" where
  "Run E e input vals s =
    (let restrictions = (if Source_LoadRestrictions input \<noteq> LoadRestrictionsUnknown
                         then Source_LoadRestrictions input else LoadRestrictions (opts e)) in
     case readKustomization E (fs e) (Source_Path input) (fsw (World s)) of
       Inl err \<Rightarrow> (Returns (Inl (Errorf2 ''unable to read kustomization from path %q: %w'' (Source_Path input) err)), s)
     | Inr (kust, name) \<Rightarrow>
        (case handle_warnings E e kust s of
           (Some err, s1) \<Rightarrow> (Returns (Inl err), s1)
         | (None, s1) \<Rightarrow>
            (case prepareFilesystem E e (Source_Path input) kust name vals (fsw (World s1)) of
               (Inl err, w2) \<Rightarrow> (Returns (Inl err), s1\<lparr>World := (World s1)\<lparr>fsw := w2\<rparr>\<rparr>)
             | (Inr (fsys, addedOriginAnnotations), w2) \<Rightarrow>
                (case SuppressStderr (os_Pipe E) (file_Close E)
                        (run_closure E restrictions fsys (Source_Path input))
                        (s1\<lparr>World := (World s1)\<lparr>fsw := w2\<rparr>\<rparr>) of
                   (Panics msg, s3) \<Rightarrow> (Panics msg, s3)
                 | (Returns (Some err), s3) \<Rightarrow>
                     (Returns (Inl (Errorf2 ''failed to run kustomize for path %q: %w'' (Source_Path input) err)), s3)
                 | (Returns None, s3) \<Rightarrow>
                    (case apply_plugins (Plugins (opts e)) (Source_Path input) (resMap_var (World s3)) of
                       Inl err \<Rightarrow> (Returns (Inl err), s3)
                     | Inr rm \<Rightarrow>
                        (case convertResources E e rm (Source_Path input) of
                           Inl err \<Rightarrow> (Returns (Inl err), s3)
                         | Inr result \<Rightarrow>
                            (Returns (Inr (if addedOriginAnnotations
                                           then map removeOriginAnnotation result
                                           else result)), s3)))))))"


section \<open>Concrete runs\<close>

text \<open>Fixtures for SuppressStderr: a pipe that cannot be created, one that can, and three functions.\<close>

definition pipe_fails :: "unit \<Rightarrow> (error + nat \<times> nat) \<times> unit" where
  "pipe_fails w = (Inl (External 24), w)"

definition pipe_ok :: "unit \<Rightarrow> (error + nat \<times> nat) \<times> unit" where
  "pipe_ok w = (Inr (3, 4), w)"

definition close_unit :: "nat \<Rightarrow> unit \<Rightarrow> unit" where
  "close_unit f w = w"

definition fn_nil :: "unit process \<Rightarrow> (error option) outcome \<times> unit process" where
  "fn_nil s = (Returns None, s)"

definition fn_err :: "unit process \<Rightarrow> (error option) outcome \<times> unit process" where
  "fn_err s = (Returns (Some (External 1)), s\<lparr>Stderr := 99\<rparr>)"

definition fn_panic :: "unit process \<Rightarrow> (error option) outcome \<times> unit process" where
  "fn_panic s = (Panics ''test panic'', s)"

definition proc0 :: "unit process" where
  "proc0 = \<lparr> Stderr = 2, World = () \<rparr>"




text \<open>
  The fixtures of TestNewFs: a base in memory holding /base.txt and /override.txt, and the
  two overrides /overlay.txt and /override.txt.
\<close>

definition base0 :: "(path \<times> node) list FileSystem" where
  "base0 = adapter_New table_lib (MemMapFs 0)"

definition world_base :: "(path \<times> node) list world" where
  "world_base =
    \<lparr> store = (\<lambda>l. if l = Mem 0
                     then [(''/base.txt'', FileNode ''base content''), (''/override.txt'', FileNode ''original'')]
                     else []),
      fresh = 1 \<rparr>"

definition options0 :: "(path \<times> node) list union_Option list" where
  "options0 = [WithOverride ''/overlay.txt'' ''overlay content'', WithOverride ''/override.txt'' ''overridden'']"

definition ops0 :: "mut_op list" where
  "ops0 = [OpWriteFile ''/base.txt'' ''changed'', OpMkdir ''/d'', OpCreate ''/override.txt'',
           OpRemoveAll ''/base.txt'', OpMkdirAll ''/d/e'']"

definition union0 :: "(path \<times> node) list FileSystem" where
  "union0 = adapter_New table_lib (CopyOnWriteFs (MemMapFs 0) (MemMapFs 1))"

definition world1 :: "(path \<times> node) list world" where
  "world1 =
    world_base\<lparr>store := (store world_base)
                  (Mem 1 := [(''/overlay.txt'', FileNode ''overlay content''),
                             (''/override.txt'', FileNode ''overridden'')]),
               fresh := 2\<rparr>"

text \<open>A union whose overlay is the base filesystem itself.\<close>

definition union_alias :: "(path \<times> node) list FileSystem" where
  "union_alias = adapter_New table_lib (CopyOnWriteFs (MemMapFs 0) (MemMapFs 0))"

text \<open>
  Fixtures for the engine.  The operating-system state counts the builder's invocations and
  records what is written to files.  The filesystem holds three overlay roots: /app (a plain
  kustomization), /dep (one using a deprecated field) and /meta (one that already requests
  origin annotations).  The stand-ins for the collaborators: a reader that takes
  kustomization.yaml from the directory, a lenient reader that accepts any path, a builder
  that returns one resource, and a conversion that attaches the builder's origin annotation.
\<close>

record ostate =
  builds :: nat
  written :: "(nat \<times> string) list"

type_synonym tstate = "((path \<times> node) list, ostate) rstate"

definition world_app :: "(path \<times> node) list world" where
  "world_app =
    \<lparr> store = (\<lambda>l. if l = Mem 0
                     then [(''/app'', DirNode), (''/app/kustomization.yaml'', FileNode ''resources''),
                           (''/dep'', DirNode), (''/dep/kustomization.yaml'', FileNode ''commonLabels''),
                           (''/meta'', DirNode), (''/meta/kustomization.yaml'', FileNode ''originAnnotations'')]
                     else []),
      fresh = 1 \<rparr>"

definition state_app :: tstate where
  "state_app = \<lparr> Stderr = 2, World = \<lparr> fsw = world_app, resMap_var = [], os = \<lparr> builds = 0, written = [] \<rparr> \<rparr> \<rparr>"

definition parse_kust :: "bytes \<Rightarrow> Kustomization" where
  "parse_kust data =
    \<lparr> BuildMetadata = (if data = ''originAnnotations'' then [OriginAnnotations] else []),
      OtherFields = data \<rparr>"

definition read_from_dir :: "(path \<times> node) list FileSystem \<Rightarrow> path \<Rightarrow> (path \<times> node) list world
    \<Rightarrow> error + Kustomization \<times> string" where
  "read_from_dir fsys p w =
    (case ReadFile fsys (p @ ''/kustomization.yaml'') w of
       Inl err \<Rightarrow> Inl err
     | Inr data \<Rightarrow> Inr (parse_kust data, ''kustomization.yaml''))"


definition check_deprecated :: "Kustomization \<Rightarrow> string list option" where
  "check_deprecated k =
    (if OtherFields k = ''commonLabels'' then Some [''commonLabels is deprecated''] else None)"

definition res0 :: resource where
  "res0 = \<lparr> res_Map = Inr ''ConfigMap'', res_Origin = Inr (Some ''configmap.yaml''), res_CurId = ''cm'' \<rparr>"

definition build_one :: "LoadRestrictions \<Rightarrow> (path \<times> node) list FileSystem \<Rightarrow> path \<Rightarrow> tstate
    \<Rightarrow> (error + resource list) outcome \<times> tstate" where
  "build_one r fsys p s =
    (Returns (Inr [res0]), s\<lparr>World := (World s)\<lparr>os := (os (World s))\<lparr>builds := Suc (builds (os (World s)))\<rparr>\<rparr>\<rparr>)"

definition from_unstructured :: "string \<Rightarrow> error + Unstructured" where
  "from_unstructured m =
    Inr \<lparr> Annotations = Some [''config.kubernetes.io/origin'' \<mapsto> ''path: configmap.yaml''], Object = m \<rparr>"

definition rpipe_ok :: "((path \<times> node) list, ostate) rworld \<Rightarrow> (error + nat \<times> nat) \<times> ((path \<times> node) list, ostate) rworld" where
  "rpipe_ok w = (Inr (3, 4), w)"

definition rclose :: "nat \<Rightarrow> ((path \<times> node) list, ostate) rworld \<Rightarrow> ((path \<times> node) list, ostate) rworld" where
  "rclose f w = w"

definition write_ok :: "nat \<Rightarrow> string \<Rightarrow> ((path \<times> node) list, ostate) rworld
    \<Rightarrow> error option \<times> ((path \<times> node) list, ostate) rworld" where
  "write_ok f data w = (None, w\<lparr>os := (os w)\<lparr>written := written (os w) @ [(f, data)]\<rparr>\<rparr>)"

definition write_fails :: "nat \<Rightarrow> string \<Rightarrow> ((path \<times> node) list, ostate) rworld
    \<Rightarrow> error option \<times> ((path \<times> node) list, ostate) rworld" where
  "write_fails f data w = (Some (External 9), w)"

definition marshal_kust :: "Kustomization \<Rightarrow> error + bytes" where
  "marshal_kust k = Inr (OtherFields k @ concat (BuildMetadata k))"

definition values_yaml :: "(string \<rightharpoonup> string) \<Rightarrow> error + bytes" where
  "values_yaml m = Inr ''values''"

definition env0 :: "((path \<times> node) list, ostate) engine_env" where
  "env0 =
    \<lparr> lib = table_lib,
      os_Pipe = rpipe_ok,
      file_Close = rclose,
      file_Write = write_ok,
      readKustomization = read_from_dir,
      CheckDeprecatedFields = check_deprecated,
      yaml_Marshal = marshal_kust,
      createValuesConfigMapYAML = values_yaml,
      kustomizer_Run = build_one,
      FromUnstructured = from_unstructured,
      AnnotationSourceType = ''k8s-manifest-kit.io/renderer'',
      AnnotationSourcePath = ''k8s-manifest-kit.io/source.path'',
      AnnotationSourceFile = ''k8s-manifest-kit.io/source.file'',
      rendererType = ''kustomize'' \<rparr>"


definition env_stderr_closed :: "((path \<times> node) list, ostate) engine_env" where
  "env_stderr_closed = env0\<lparr>file_Write := write_fails\<rparr>"

definition no_values :: "string \<rightharpoonup> string" where
  "no_values = Map.empty"

definition engine_plain :: "((path \<times> node) list, ostate) Engine" where
  "engine_plain =
    \<lparr> fs = adapter_New table_lib (MemMapFs 0),
      opts = \<lparr> Plugins = [], SourceAnnotations = False,
               LoadRestrictions = LoadRestrictionsRootOnly, WarningHandler = None \<rparr> \<rparr>"

definition engine_sa :: "((path \<times> node) list, ostate) Engine" where
  "engine_sa =
    \<lparr> fs = adapter_New table_lib (MemMapFs 0),
      opts = \<lparr> Plugins = [], SourceAnnotations = True,
               LoadRestrictions = LoadRestrictionsRootOnly, WarningHandler = None \<rparr> \<rparr>"

definition engine_fail :: "((path \<times> node) list, ostate) Engine" where
  "engine_fail =
    \<lparr> fs = adapter_New table_lib (MemMapFs 0),
      opts = \<lparr> Plugins = [], SourceAnnotations = False,
               LoadRestrictions = LoadRestrictionsRootOnly, WarningHandler = Some WarningFail \<rparr> \<rparr>"

definition source_of :: "path \<Rightarrow> Source" where
  "source_of p = \<lparr> Source_Path = p, Source_LoadRestrictions = LoadRestrictionsUnknown \<rparr>"

text \<open>The documents expected of the two renders with source annotations enabled.\<close>

definition doc_app :: Unstructured where
  "doc_app =
    \<lparr> Annotations = Some ([''k8s-manifest-kit.io/renderer'' \<mapsto> ''kustomize'',
                            ''k8s-manifest-kit.io/source.path'' \<mapsto> ''/app'',
                            ''k8s-manifest-kit.io/source.file'' \<mapsto> ''configmap.yaml'']),
      Object = ''ConfigMap'' \<rparr>"

definition doc_meta :: Unstructured where
  "doc_meta =
    \<lparr> Annotations = Some ([''config.kubernetes.io/origin'' \<mapsto> ''path: configmap.yaml'',
                            ''k8s-manifest-kit.io/renderer'' \<mapsto> ''kustomize'',
                            ''k8s-manifest-kit.io/source.path'' \<mapsto> ''/meta'',
                            ''k8s-manifest-kit.io/source.file'' \<mapsto> ''configmap.yaml'']),
      Object = ''ConfigMap'' \<rparr>"

section \<open>Results\<close>






text \<open>
  C10, as the code has it.  SuppressStderr always leaves os.Stderr as it found it, whether the
  function returns nil, returns an error or panics, and whatever the function did to
  os.Stderr.  When the pipe is created, the outcome is the function's own (its error
  unchanged, its panic propagated), run with os.Stderr set to the pipe's write end.  When the
  pipe cannot be created, the function is not called and the error is the wrapped pipe error.
\<close>

theorem SuppressStderr_restores:
  "Stderr (snd (SuppressStderr P C fn s)) = Stderr s
   \<and> (fst (P (World s)) = Inr (r, w)
        \<longrightarrow> fst (SuppressStderr P C fn s) = fst (fn (s\<lparr>World := snd (P (World s)), Stderr := w\<rparr>)))
   \<and> (fst (P (World s)) = Inl err
        \<longrightarrow> SuppressStderr P C fn s
            = (Returns (Some (Errorf ''failed to create pipe: %w'' err)), s\<lparr>World := snd (P (World s))\<rparr>))"
  by (cases "P (World s)") (auto simp: SuppressStderr_def Let_def split: sum.splits prod.splits)

theorem SuppressStderr_restores_witness:
  "SuppressStderr pipe_ok close_unit fn_err proc0 = (Returns (Some (External 1)), proc0)
   \<and> SuppressStderr pipe_ok close_unit fn_panic proc0 = (Panics ''test panic'', proc0)
   \<and> SuppressStderr pipe_fails close_unit fn_nil proc0
       = (Returns (Some (Errorf ''failed to create pipe: %w'' (External 24))), proc0)"
proof -
  have a: "fst (pipe_ok (World proc0)) = Inr (3, 4)" by (simp add: pipe_ok_def)
  have b: "fst (pipe_fails (World proc0)) = Inl (External 24)" by (simp add: pipe_fails_def)
  have 1: "Stderr (snd (SuppressStderr pipe_ok close_unit fn_err proc0)) = 2
           \<and> fst (SuppressStderr pipe_ok close_unit fn_err proc0) = Returns (Some (External 1))"
    using SuppressStderr_restores [of pipe_ok close_unit fn_err proc0 3 4] a
    by (simp add: fn_err_def proc0_def)
  have 2: "Stderr (snd (SuppressStderr pipe_ok close_unit fn_panic proc0)) = 2
           \<and> fst (SuppressStderr pipe_ok close_unit fn_panic proc0) = Panics ''test panic''"
    using SuppressStderr_restores [of pipe_ok close_unit fn_panic proc0 3 4] a
    by (simp add: fn_panic_def proc0_def)
  have 3: "SuppressStderr pipe_fails close_unit fn_nil proc0
       = (Returns (Some (Errorf ''failed to create pipe: %w'' (External 24))), proc0)"
    using SuppressStderr_restores [of pipe_fails close_unit fn_nil proc0 _ _ "External 24"] b
    by (simp add: pipe_fails_def)
  have eq: "\<And>x (out :: (error option) outcome). Stderr (snd x) = 2 \<and> fst x = out \<Longrightarrow> x = (out, proc0)"
    by (auto simp: proc0_def prod_eq_iff)
  show ?thesis using eq [OF 1] eq [OF 2] 3 by simp
qed

text \<open>
  C10 as stated fails when os.Pipe fails: the function (which would return nil) is not run,
  and SuppressStderr returns the pipe error instead of the function's result.
\<close>

theorem SuppressStderr_identity_counterexample:
  "fst (SuppressStderr pipe_fails close_unit fn_nil proc0) \<noteq> fst (fn_nil proc0)"
  by (simp add: SuppressStderr_def pipe_fails_def fn_nil_def proc0_def)




subsection \<open>Frame lemmas for the union filesystem\<close>

lemma at_loc_frame:
  "x \<noteq> l \<Longrightarrow> store (snd (at_loc l f w)) x = store w x"
  by (simp add: at_loc_def split: prod.splits)

lemma at_loc_fresh:
  "fresh (snd (at_loc l f w)) = fresh w"
  by (simp add: at_loc_def split: prod.splits)

lemma afero_mutate_frame:
  "x \<notin> wlocs f \<Longrightarrow> store (snd (afero_mutate L f op w)) x = store w x"
  by (induction f) (simp_all add: at_loc_frame)

lemma afero_mutate_fresh:
  "fresh (snd (afero_mutate L f op w)) = fresh w"
  by (induction f) (simp_all add: at_loc_fresh)

lemma adapter_mutate:
  "snd (fs_mutate (adapter_New L a) op w) = snd (afero_mutate L a op w)"
  by (cases op) (auto simp: adapter_New_def afero_Create_def split: prod.splits option.splits)

lemma fs_mutate_all_frame:
  "x \<notin> wlocs a \<Longrightarrow> store (fs_mutate_all (adapter_New L a) ops w) x = store w x"
  by (induction ops arbitrary: w) (simp_all add: adapter_mutate afero_mutate_frame)

lemma adapter_WriteFile:
  "WriteFile (adapter_New L a) p d w = afero_mutate L a (OpWriteFile p d) w"
  by (simp add: adapter_New_def)

lemma write_overrides_frame:
  "x \<notin> wlocs a \<Longrightarrow> store (snd (write_overrides (adapter_New L a) kvs w)) x = store w x"
proof (induction kvs arbitrary: w)
  case Nil
  then show ?case by simp
next
  case (Cons kv kvs)
  obtain p d where kv: "kv = (p, d)" by (cases kv)
  obtain r w' where m: "afero_mutate L a (OpWriteFile p d) w = (r, w')"
    by (cases "afero_mutate L a (OpWriteFile p d) w")
  have fr: "store w' x = store w x"
    using afero_mutate_frame [OF Cons.prems, of L "OpWriteFile p d" w] m by simp
  show ?case
  proof (cases r)
    case None
    then show ?thesis using kv m fr Cons.IH [OF Cons.prems, of w']
      by (simp add: adapter_WriteFile)
  next
    case (Some err)
    then show ?thesis using kv m fr by (simp add: adapter_WriteFile)
  qed
qed

lemma write_overrides_fresh:
  "fresh (snd (write_overrides (adapter_New L a) kvs w)) = fresh w"
proof (induction kvs arbitrary: w)
  case Nil
  then show ?case by simp
next
  case (Cons kv kvs)
  obtain p d where kv: "kv = (p, d)" by (cases kv)
  obtain r w' where m: "afero_mutate L a (OpWriteFile p d) w = (r, w')"
    by (cases "afero_mutate L a (OpWriteFile p d) w")
  have fr: "fresh w' = fresh w"
    using afero_mutate_fresh [of L a "OpWriteFile p d" w] m by simp
  show ?case
  proof (cases r)
    case None
    then show ?thesis using kv m fr Cons.IH [of w'] by (simp add: adapter_WriteFile)
  next
    case (Some err)
    then show ?thesis using kv m fr by (simp add: adapter_WriteFile)
  qed
qed

lemma fold_overlay:
  "overlay (fold apply_Option options cfg) =
     (case given_overlay options of None \<Rightarrow> overlay cfg | Some ov \<Rightarrow> Some ov)"
proof (induction options arbitrary: cfg)
  case Nil
  then show ?case by simp
next
  case (Cons opt options)
  show ?case by (cases opt) (simp_all add: Cons.IH split: option.splits)
qed

lemma afero_Stat_cong:
  "\<forall>x\<in>locs f. store w x = store w' x \<Longrightarrow> afero_Stat L f p w = afero_Stat L f p w'"
  by (induction f) (simp_all split: sum.splits)

lemma afero_ReadFile_cong:
  "\<forall>x\<in>locs f. store w x = store w' x \<Longrightarrow> afero_ReadFile L f p w = afero_ReadFile L f p w'"
proof (induction f)
  case (CopyOnWriteFs b l)
  have sl: "afero_Stat L l p w = afero_Stat L l p w'"
    using CopyOnWriteFs.prems by (intro afero_Stat_cong) simp
  show ?case using CopyOnWriteFs sl by (simp split: sum.splits)
qed simp_all

lemma NewFs_shape:
  assumes "NewFs L base options w = (Inr u, w1)"
  shows "\<exists>b l. Unwrap base = Some b \<and> u = adapter_New L (CopyOnWriteFs b l)
           \<and> (case given_overlay options of
                 Some ov \<Rightarrow> Unwrap ov = Some l \<and> w1 = w
               | None \<Rightarrow> l = MemMapFs (fresh w) \<and> fresh w1 = Suc (fresh w)
                          \<and> (\<forall>x. x \<noteq> Mem (fresh w) \<longrightarrow> store w1 x = store w x))"
proof (cases "given_overlay options")
  case (Some ov)
  then have ov: "overlay (fold apply_Option options \<lparr>overrides = [], overlay = None\<rparr>) = Some ov"
    by (simp add: fold_overlay)
  show ?thesis using assms Some ov
    by (auto simp: NewFs_def Let_def split: option.splits)
next
  case None
  let ?cfg = "fold apply_Option options \<lparr>overrides = [], overlay = None\<rparr>"
  let ?m = "MemMapFs (fresh w)"
  let ?w0 = "w\<lparr>store := (store w)(Mem (fresh w) := st_empty L), fresh := Suc (fresh w)\<rparr>"
  have ov: "overlay ?cfg = None" using None by (simp add: fold_overlay)
  obtain r w' where wo: "write_overrides (adapter_New L ?m) (overrides ?cfg) ?w0 = (r, w')"
    by (cases "write_overrides (adapter_New L ?m) (overrides ?cfg) ?w0")
  have fr: "fresh w' = Suc (fresh w)"
    using write_overrides_fresh [of L ?m "overrides ?cfg" ?w0] wo by simp
  have st: "\<forall>x. x \<noteq> Mem (fresh w) \<longrightarrow> store w' x = store w x"
    using write_overrides_frame [of _ ?m L "overrides ?cfg" ?w0] wo by simp
  have un: "Unwrap (adapter_New L ?m) = Some ?m" by (simp add: adapter_New_def)
  show ?thesis
  proof (cases r)
    case (Some err)
    then show ?thesis using assms ov wo by (simp add: NewFs_def Let_def NewMemoryFs_def)
  next
    case rn: None
    show ?thesis
    proof (cases "Unwrap base")
      case None
      then show ?thesis using assms ov wo rn by (simp add: NewFs_def Let_def NewMemoryFs_def)
    next
      case (Some b)
      then have "u = adapter_New L (CopyOnWriteFs b ?m)" and "w1 = w'"
        using assms ov wo rn un by (simp_all add: NewFs_def Let_def NewMemoryFs_def)
      then show ?thesis using Some \<open>given_overlay options = None\<close> fr st by simp
    qed
  qed
qed

text \<open>
  C1, as the code has it.  Let the union be composed over a base whose in-memory stores
  already exist, with either no overlay filesystem among the options (NewFs then creates the
  overlay itself) or one whose writable stores are none of the base's stores.  Then after
  any sequence of Create, Mkdir, MkdirAll, RemoveAll and WriteFile calls through the union,
  every store of the base holds what it held before the composition, and so Stat and
  ReadFile on the base answer as before.
\<close>

theorem base_untouched:
  assumes "NewFs L base options w = (Inr u, w1)"
    and "Unwrap base = Some b"
    and "\<forall>n. Mem n \<in> locs b \<longrightarrow> n < fresh w"
    and "\<forall>ov l. given_overlay options = Some ov \<and> Unwrap ov = Some l \<longrightarrow> wlocs l \<inter> locs b = {}"
  shows "(\<forall>x\<in>locs b. store (fs_mutate_all u ops w1) x = store w x)
       \<and> afero_Stat L b p (fs_mutate_all u ops w1) = afero_Stat L b p w
       \<and> afero_ReadFile L b p (fs_mutate_all u ops w1) = afero_ReadFile L b p w"
proof -
  obtain b' l where b': "Unwrap base = Some b'" and u: "u = adapter_New L (CopyOnWriteFs b' l)"
    and sh: "case given_overlay options of
               Some ov \<Rightarrow> Unwrap ov = Some l \<and> w1 = w
             | None \<Rightarrow> l = MemMapFs (fresh w) \<and> fresh w1 = Suc (fresh w)
                        \<and> (\<forall>x. x \<noteq> Mem (fresh w) \<longrightarrow> store w1 x = store w x)"
    using NewFs_shape [OF assms(1)] by blast
  have bb: "b' = b" using b' assms(2) by simp
  have disj: "wlocs l \<inter> locs b = {}" and w1: "\<forall>x\<in>locs b. store w1 x = store w x"
  proof -
    show "wlocs l \<inter> locs b = {}"
    proof (cases "given_overlay options")
      case None
      then have l: "l = MemMapFs (fresh w)" using sh by simp
      have "Mem (fresh w) \<notin> locs b"
      proof
        assume "Mem (fresh w) \<in> locs b"
        then have "fresh w < fresh w" using assms(3) by blast
        then show False by simp
      qed
      then show ?thesis using l by simp
    next
      case (Some ov)
      then show ?thesis using sh assms(4) by simp
    qed
    show "\<forall>x\<in>locs b. store w1 x = store w x"
    proof (cases "given_overlay options")
      case None
      then have other: "\<forall>x. x \<noteq> Mem (fresh w) \<longrightarrow> store w1 x = store w x" using sh by simp
      have notin: "Mem (fresh w) \<notin> locs b"
      proof
        assume "Mem (fresh w) \<in> locs b"
        then have "fresh w < fresh w" using assms(3) by blast
        then show False by simp
      qed
      show ?thesis
      proof
        fix x assume "x \<in> locs b"
        then have "x \<noteq> Mem (fresh w)" using notin by blast
        then show "store w1 x = store w x" using other by blast
      qed
    next
      case (Some ov)
      then show ?thesis using sh by simp
    qed
  qed
  have fin: "\<forall>x\<in>locs b. store (fs_mutate_all u ops w1) x = store w x"
  proof
    fix x assume x: "x \<in> locs b"
    then have "x \<notin> wlocs (CopyOnWriteFs b' l)" using disj by auto
    then have "store (fs_mutate_all u ops w1) x = store w1 x"
      unfolding u by (rule fs_mutate_all_frame)
    then show "store (fs_mutate_all u ops w1) x = store w x" using w1 x by simp
  qed
  show ?thesis
    using fin afero_Stat_cong [of b "fs_mutate_all u ops w1" w L p]
      afero_ReadFile_cong [of b "fs_mutate_all u ops w1" w L p]
    by simp
qed

text \<open>
  C2.  In a union filesystem that NewFs returns, a path that the overlay has (the overlay
  given by the options, or else the fresh in-memory one) reads as the overlay's content,
  whatever the base holds at that path.
\<close>

theorem overlay_precedence:
  assumes "NewFs L base options w = (Inr u, w1)"
  shows "\<exists>b l. Unwrap base = Some b \<and> Unwrap u = Some (CopyOnWriteFs b l)
           \<and> (\<forall>ov. given_overlay options = Some ov \<longrightarrow> Unwrap ov = Some l)
           \<and> (given_overlay options = None \<longrightarrow> l = MemMapFs (fresh w))
           \<and> (\<forall>p d w'. Exists (adapter_New L l) p w' \<and> ReadFile (adapter_New L l) p w' = Inr d
                 \<longrightarrow> ReadFile u p w' = Inr d)"
proof -
  obtain b l where b: "Unwrap base = Some b" and u: "u = adapter_New L (CopyOnWriteFs b l)"
    and sh: "case given_overlay options of
               Some ov \<Rightarrow> Unwrap ov = Some l \<and> w1 = w
             | None \<Rightarrow> l = MemMapFs (fresh w) \<and> fresh w1 = Suc (fresh w)
                        \<and> (\<forall>x. x \<noteq> Mem (fresh w) \<longrightarrow> store w1 x = store w x)"
    using NewFs_shape [OF assms] by blast
  have rd: "\<forall>p d w'. Exists (adapter_New L l) p w' \<and> ReadFile (adapter_New L l) p w' = Inr d
                 \<longrightarrow> ReadFile u p w' = Inr d"
    unfolding u by (auto simp: adapter_New_def split: sum.splits)
  have g1: "\<forall>ov. given_overlay options = Some ov \<longrightarrow> Unwrap ov = Some l"
    using sh by (auto split: option.splits)
  have g2: "given_overlay options = None \<longrightarrow> l = MemMapFs (fresh w)"
    using sh by (auto split: option.splits)
  have uw: "Unwrap u = Some (CopyOnWriteFs b l)" unfolding u by (simp add: adapter_New_def)
  show ?thesis
  proof (intro exI conjI)
    show "Unwrap base = Some b" by (rule b)
    show "Unwrap u = Some (CopyOnWriteFs b l)" by (rule uw)
    show "\<forall>ov. given_overlay options = Some ov \<longrightarrow> Unwrap ov = Some l" by (rule g1)
    show "given_overlay options = None \<longrightarrow> l = MemMapFs (fresh w)" by (rule g2)
    show "\<forall>p d w'. Exists (adapter_New L l) p w' \<and> ReadFile (adapter_New L l) p w' = Inr d
                 \<longrightarrow> ReadFile u p w' = Inr d" by (rule rd)
  qed
qed

lemma NewFs_fixture:
  "NewFs table_lib base0 options0 world_base = (Inr union0, world1)"
  by (simp add: NewFs_def NewMemoryFs_def base0_def options0_def world_base_def Let_def
      adapter_New_def table_lib_def at_loc_def union0_def world1_def)

theorem base_untouched_witness:
  "NewFs table_lib base0 options0 world_base = (Inr union0, world1)
   \<and> ReadFile base0 ''/base.txt'' (fs_mutate_all union0 ops0 world1) = Inr ''base content''
   \<and> ReadFile base0 ''/override.txt'' (fs_mutate_all union0 ops0 world1) = Inr ''original''"
proof -
  have uw: "Unwrap base0 = Some (MemMapFs 0)" by (simp add: base0_def adapter_New_def)
  have wf: "\<forall>n. Mem n \<in> locs (MemMapFs 0) \<longrightarrow> n < fresh world_base"
    by (simp add: world_base_def)
  have al: "\<forall>ov l. given_overlay options0 = Some ov \<and> Unwrap ov = Some l
              \<longrightarrow> wlocs l \<inter> locs (MemMapFs 0) = {}"
    by (simp add: options0_def)
  have rd: "ReadFile base0 p w = afero_ReadFile table_lib (MemMapFs 0) p w" for p w
    by (simp add: base0_def adapter_New_def)
  have 1: "afero_ReadFile table_lib (MemMapFs 0) ''/base.txt'' (fs_mutate_all union0 ops0 world1)
        = afero_ReadFile table_lib (MemMapFs 0) ''/base.txt'' world_base"
    using base_untouched [OF NewFs_fixture uw wf al, of ops0 "''/base.txt''"] by simp
  have 2: "afero_ReadFile table_lib (MemMapFs 0) ''/override.txt'' (fs_mutate_all union0 ops0 world1)
        = afero_ReadFile table_lib (MemMapFs 0) ''/override.txt'' world_base"
    using base_untouched [OF NewFs_fixture uw wf al, of ops0 "''/override.txt''"] by simp
  have 3: "afero_ReadFile table_lib (MemMapFs 0) ''/base.txt'' world_base = Inr ''base content''"
    by (simp add: table_lib_def world_base_def)
  have 4: "afero_ReadFile table_lib (MemMapFs 0) ''/override.txt'' world_base = Inr ''original''"
    by (simp add: table_lib_def world_base_def)
  show ?thesis using NewFs_fixture 1 2 3 4 by (simp add: rd)
qed

text \<open>
  C1 as stated fails when the overlay handed to NewFs shares its store with the base: the
  write through the union lands in the overlay, which is the base, and the base then reads
  the new content.
\<close>

theorem base_untouched_counterexample:
  "NewFs table_lib base0 [WithOverlayFs base0] world_base = (Inr union_alias, world_base)
   \<and> ReadFile base0 ''/base.txt'' world_base = Inr ''base content''
   \<and> ReadFile base0 ''/base.txt''
        (fs_mutate_all union_alias [OpWriteFile ''/base.txt'' ''changed''] world_base) = Inr ''changed''"
  by (simp add: NewFs_def base0_def Let_def adapter_New_def union_alias_def table_lib_def
      at_loc_def world_base_def)

theorem overlay_precedence_witness:
  "ReadFile base0 ''/override.txt'' world1 = Inr ''original''
   \<and> ReadFile union0 ''/override.txt'' world1 = Inr ''overridden''"
proof -
  obtain b l where u: "Unwrap union0 = Some (CopyOnWriteFs b l)"
    and l: "given_overlay options0 = None \<longrightarrow> l = MemMapFs (fresh world_base)"
    and rd: "\<forall>p d w'. Exists (adapter_New table_lib l) p w' \<and> ReadFile (adapter_New table_lib l) p w' = Inr d
                 \<longrightarrow> ReadFile union0 p w' = Inr d"
    using overlay_precedence [OF NewFs_fixture]
    by (elim exE conjE) (rule that, assumption+)
  have l1: "l = MemMapFs 1" using l by (simp add: options0_def world_base_def)
  have ex: "Exists (adapter_New table_lib (MemMapFs 1)) ''/override.txt'' world1"
    by (simp add: adapter_New_def table_lib_def world1_def)
  have ov: "ReadFile (adapter_New table_lib (MemMapFs 1)) ''/override.txt'' world1 = Inr ''overridden''"
    by (simp add: adapter_New_def table_lib_def world1_def)
  have 1: "ReadFile union0 ''/override.txt'' world1 = Inr ''overridden''"
    using rd ex ov l1 by blast
  have 2: "ReadFile base0 ''/override.txt'' world1 = Inr ''original''"
    by (simp add: base0_def adapter_New_def table_lib_def world1_def world_base_def)
  show ?thesis using 1 2 by simp
qed

subsection \<open>The engine\<close>

lemma synthetic_overrides_result:
  assumes "synthetic_overrides E e p kust kustName vals = Inr (options, added)"
  shows "(options \<noteq> [] \<longleftrightarrow>
            (SourceAnnotations (opts e) \<and> OriginAnnotations \<notin> set (BuildMetadata kust)) \<or> vals \<noteq> Map.empty)
       \<and> (added \<longleftrightarrow> SourceAnnotations (opts e) \<and> OriginAnnotations \<notin> set (BuildMetadata kust))"
  using assms
  by (auto simp: synthetic_overrides_def split: if_splits sum.splits)

lemma prepareFilesystem_added:
  assumes "prepareFilesystem E e inputPath kust kustName vals w = (Inr (fsys, added), w')"
  shows "added \<longleftrightarrow> SourceAnnotations (opts e) \<and> OriginAnnotations \<notin> set (BuildMetadata kust)"
proof (cases "\<not> SourceAnnotations (opts e) \<and> vals = Map.empty")
  case True
  then show ?thesis using assms by (simp add: prepareFilesystem_def)
next
  case False
  then obtain p f options where so: "synthetic_overrides E e p kust kustName vals = Inr (options, added)"
    using assms
    by (auto simp: prepareFilesystem_def split: if_splits sum.splits prod.splits)
  then show ?thesis using synthetic_overrides_result [OF so] by simp
qed


lemma prepare_plain:
  "prepareFilesystem env0 engine_plain ''/app'' (parse_kust ''resources'') ''kustomization.yaml'' no_values world_app
     = (Inr (fs engine_plain, False), world_app)"
  by (simp add: prepareFilesystem_def engine_plain_def no_values_def)

lemma cleaned_app:
  "CleanedAbs (adapter_New table_lib (MemMapFs 0)) ''/app'' world_app = Inr (''/app'', [])"
  by (simp add: adapter_New_def Adapter_CleanedAbs_def table_lib_def world_app_def)

lemma cleaned_meta:
  "CleanedAbs (adapter_New table_lib (MemMapFs 0)) ''/meta'' world_app = Inr (''/meta'', [])"
  by (simp add: adapter_New_def Adapter_CleanedAbs_def table_lib_def world_app_def)


lemma prepare_meta:
  "prepareFilesystem env0 engine_sa ''/meta'' (parse_kust ''originAnnotations'') ''kustomization.yaml'' no_values world_app
     = (Inr (adapter_New table_lib (CopyOnWriteFs (MemMapFs 0) (MemMapFs 1)), False),
        world_app\<lparr>store := (store world_app)(Mem 1 := []), fresh := 2\<rparr>)"
  by (simp add: prepareFilesystem_def engine_sa_def no_values_def cleaned_meta
      synthetic_overrides_def parse_kust_def env0_def NewFs_def NewMemoryFs_def Let_def)
     (simp add: table_lib_def world_app_def adapter_New_def)







lemma rstate_same:
  "s\<lparr>World := (World s)\<lparr>fsw := fsw (World s)\<rparr>\<rparr> = s"
  by simp




lemma WarningLog_ok:
  "(\<And>data s. fst (wr data s) = None) \<Longrightarrow> fst (WarningLog wr warnings s) = None"
proof (induction warnings arbitrary: s)
  case Nil
  then show ?case by simp
next
  case (Cons msg rest)
  obtain r s' where w: "wr (msg @ [CHR 0x0A]) s = (r, s')" by (cases "wr (msg @ [CHR 0x0A]) s")
  have "r = None" using Cons.prems [of "msg @ [CHR 0x0A]" s] w by simp
  then show ?case using w Cons.IH [OF Cons.prems, of s'] by simp
qed

lemma WarningLog_err:
  "WarningLog wr warnings s = (Some err, s1) \<Longrightarrow> \<exists>werr. err = Errorf ''failed to write warning: %w'' werr"
proof (induction warnings arbitrary: s)
  case Nil
  then show ?case by simp
next
  case (Cons msg rest)
  obtain r s' where w: "wr (msg @ [CHR 0x0A]) s = (r, s')" by (cases "wr (msg @ [CHR 0x0A]) s")
  show ?case
  proof (cases r)
    case None
    then have "WarningLog wr rest s' = (Some err, s1)" using Cons.prems w by simp
    then show ?thesis by (rule Cons.IH)
  next
    case (Some werr)
    then have "err = Errorf ''failed to write warning: %w'' werr" using Cons.prems w by simp
    then show ?thesis by blast
  qed
qed

lemma handle_warnings_nonempty:
  assumes "CheckDeprecatedFields E kust = Some warnings" and "warnings \<noteq> []"
  shows "handle_warnings E e kust s =
     (case WarningHandler (opts e) of
        None \<Rightarrow> WarningLog (stderr_Writer E (Stderr s)) warnings s
      | Some h \<Rightarrow> h warnings s)"
  using assms by (simp add: handle_warnings_def Let_def split: option.splits)

lemma Run_warning_abort:
  assumes "readKustomization E (fs e) (Source_Path input) (fsw (World s)) = Inr (kust, name)"
    and "handle_warnings E e kust s = (Some err, s1)"
  shows "Run E e input vals s = (Returns (Inl err), s1)"
  using assms by (simp add: Run_def Let_def)

text \<open>
  C5, as the code has it.  When the kustomization carries deprecation warnings, the
  configured handler is called once with the whole list, in the state of the render; if it
  returns an error, Run returns exactly that error and no documents, in the state the
  handler left.  When no handler is configured, the handler is WarningLog on os.Stderr: it
  does not fail as long as the writes to os.Stderr succeed, and when a write fails the
  render is aborted with the "failed to write warning" error that wraps the write error.
\<close>

theorem warning_handler_contract:
  assumes "readKustomization E (fs e) (Source_Path input) (fsw (World s)) = Inr (kust, name)"
    and "CheckDeprecatedFields E kust = Some warnings"
    and "warnings \<noteq> []"
  shows "(WarningHandler (opts e) = Some h \<longrightarrow> handle_warnings E e kust s = h warnings s)
       \<and> (WarningHandler (opts e) = Some h \<and> h warnings s = (Some err, s1)
            \<longrightarrow> Run E e input vals s = (Returns (Inl err), s1))
       \<and> (WarningHandler (opts e) = None
            \<longrightarrow> handle_warnings E e kust s = WarningLog (stderr_Writer E (Stderr s)) warnings s)
       \<and> (WarningHandler (opts e) = None \<and> (\<forall>data w. fst (file_Write E (Stderr s) data w) = None)
            \<longrightarrow> fst (handle_warnings E e kust s) = None)
       \<and> (WarningHandler (opts e) = None \<and> handle_warnings E e kust s = (Some err, s1)
            \<longrightarrow> (\<exists>werr. err = Errorf ''failed to write warning: %w'' werr)
                \<and> Run E e input vals s = (Returns (Inl err), s1))"
proof -
  note hw = handle_warnings_nonempty [OF assms(2) assms(3), of e s]
  have a: "WarningHandler (opts e) = Some h \<longrightarrow> handle_warnings E e kust s = h warnings s"
    using hw by simp
  have b: "WarningHandler (opts e) = Some h \<and> h warnings s = (Some err, s1)
            \<longrightarrow> Run E e input vals s = (Returns (Inl err), s1)"
  proof
    assume h: "WarningHandler (opts e) = Some h \<and> h warnings s = (Some err, s1)"
    then have "handle_warnings E e kust s = (Some err, s1)" using hw by simp
    then show "Run E e input vals s = (Returns (Inl err), s1)"
      by (rule Run_warning_abort [OF assms(1)])
  qed
  have c: "WarningHandler (opts e) = None
            \<longrightarrow> handle_warnings E e kust s = WarningLog (stderr_Writer E (Stderr s)) warnings s"
    using hw by simp
  have d: "WarningHandler (opts e) = None \<and> (\<forall>data w. fst (file_Write E (Stderr s) data w) = None)
            \<longrightarrow> fst (handle_warnings E e kust s) = None"
  proof
    assume h: "WarningHandler (opts e) = None \<and> (\<forall>data w. fst (file_Write E (Stderr s) data w) = None)"
    have wr: "fst (stderr_Writer E (Stderr s) data s') = None" for data s'
      using h by (simp add: stderr_Writer_def split: prod.splits) (metis fst_conv)
    have "fst (WarningLog (stderr_Writer E (Stderr s)) warnings s) = None"
      by (rule WarningLog_ok) (rule wr)
    then show "fst (handle_warnings E e kust s) = None" using h hw by simp
  qed
  have f: "WarningHandler (opts e) = None \<and> handle_warnings E e kust s = (Some err, s1)
            \<longrightarrow> (\<exists>werr. err = Errorf ''failed to write warning: %w'' werr)
                \<and> Run E e input vals s = (Returns (Inl err), s1)"
  proof
    assume h: "WarningHandler (opts e) = None \<and> handle_warnings E e kust s = (Some err, s1)"
    then have hn: "WarningHandler (opts e) = None" and hs: "handle_warnings E e kust s = (Some err, s1)"
      by simp_all
    have "handle_warnings E e kust s = WarningLog (stderr_Writer E (Stderr s)) warnings s"
      using hw hn by simp
    then have "WarningLog (stderr_Writer E (Stderr s)) warnings s = (Some err, s1)" using hs by simp
    then have "\<exists>werr. err = Errorf ''failed to write warning: %w'' werr" by (rule WarningLog_err)
    moreover have "Run E e input vals s = (Returns (Inl err), s1)"
      using h by (intro Run_warning_abort [OF assms(1)]) simp
    ultimately show "(\<exists>werr. err = Errorf ''failed to write warning: %w'' werr)
                \<and> Run E e input vals s = (Returns (Inl err), s1)" by simp
  qed
  show ?thesis by (intro conjI) (rule a, rule b, rule c, rule d, rule f)
qed
lemma read_dep:
  "readKustomization env0 (adapter_New table_lib (MemMapFs 0)) ''/dep'' world_app
     = Inr (parse_kust ''commonLabels'', ''kustomization.yaml'')"
  by (simp add: env0_def read_from_dir_def adapter_New_def table_lib_def world_app_def)

theorem warning_handler_contract_witness:
  "Run env0 engine_fail (source_of ''/dep'') no_values state_app
     = (Returns (Inl (Errorf2 ''%w:<LF>%s'' ''commonLabels is deprecated'' ErrKustomizeWarnings)), state_app)
   \<and> handle_warnings env0 engine_plain (parse_kust ''commonLabels'') state_app
     = (None, state_app\<lparr>World := (World state_app)
              \<lparr>os := \<lparr> builds = 0, written = [(2, ''commonLabels is deprecated'' @ [CHR 0x0A])] \<rparr>\<rparr>\<rparr>)"
proof -
  have r1: "readKustomization env0 (fs engine_fail) (Source_Path (source_of ''/dep'')) (fsw (World state_app))
      = Inr (parse_kust ''commonLabels'', ''kustomization.yaml'')"
    using read_dep by (simp add: engine_fail_def source_of_def state_app_def)
  have r2: "readKustomization env0 (fs engine_plain) (Source_Path (source_of ''/dep'')) (fsw (World state_app))
      = Inr (parse_kust ''commonLabels'', ''kustomization.yaml'')"
    using read_dep by (simp add: engine_plain_def source_of_def state_app_def)
  have c: "CheckDeprecatedFields env0 (parse_kust ''commonLabels'') = Some [''commonLabels is deprecated'']"
    by (simp add: env0_def check_deprecated_def parse_kust_def)
  have n: "[''commonLabels is deprecated''] \<noteq> []" by simp
  have hf: "WarningHandler (opts engine_fail) = Some WarningFail
      \<and> WarningFail [''commonLabels is deprecated''] state_app
        = (Some (Errorf2 ''%w:<LF>%s'' ''commonLabels is deprecated'' ErrKustomizeWarnings), state_app)"
    by (simp add: engine_fail_def WarningFail_def)
  have 1: "Run env0 engine_fail (source_of ''/dep'') no_values state_app
     = (Returns (Inl (Errorf2 ''%w:<LF>%s'' ''commonLabels is deprecated'' ErrKustomizeWarnings)), state_app)"
    using warning_handler_contract [OF r1 c n, of WarningFail
        "Errorf2 ''%w:<LF>%s'' ''commonLabels is deprecated'' ErrKustomizeWarnings" state_app no_values] hf
    by blast
  have hn: "WarningHandler (opts engine_plain) = None" by (simp add: engine_plain_def)
  have "handle_warnings env0 engine_plain (parse_kust ''commonLabels'') state_app
      = WarningLog (stderr_Writer env0 (Stderr state_app)) [''commonLabels is deprecated''] state_app"
    using warning_handler_contract [OF r2 c n, of WarningFail
        "Errorf2 ''%w:<LF>%s'' ''commonLabels is deprecated'' ErrKustomizeWarnings" state_app no_values] hn
    by blast
  then have 2: "handle_warnings env0 engine_plain (parse_kust ''commonLabels'') state_app
     = (None, state_app\<lparr>World := (World state_app)
              \<lparr>os := \<lparr> builds = 0, written = [(2, ''commonLabels is deprecated'' @ [CHR 0x0A])] \<rparr>\<rparr>\<rparr>)"
    by (simp add: stderr_Writer_def env0_def write_ok_def state_app_def)
  show ?thesis using 1 2 by (intro conjI)
qed

text \<open>
  C5 as stated fails for the default handler when os.Stderr cannot be written (a closed
  descriptor, say): WarningLog returns the write error wrapped, and the render fails.
\<close>

theorem warning_handler_contract_counterexample:
  "WarningHandler (opts engine_plain) = None
   \<and> Run env_stderr_closed engine_plain (source_of ''/dep'') no_values state_app
       = (Returns (Inl (Errorf ''failed to write warning: %w'' (External 9))), state_app)"
proof -
  have r: "readKustomization env_stderr_closed (fs engine_plain) ''/dep'' world_app
      = Inr (parse_kust ''commonLabels'', ''kustomization.yaml'')"
    using read_dep by (simp add: env_stderr_closed_def engine_plain_def)
  have h: "handle_warnings env_stderr_closed engine_plain (parse_kust ''commonLabels'') state_app
      = (Some (Errorf ''failed to write warning: %w'' (External 9)), state_app)"
    by (simp add: handle_warnings_def env_stderr_closed_def env0_def check_deprecated_def parse_kust_def
        engine_plain_def stderr_Writer_def write_fails_def state_app_def)
  have "Run env_stderr_closed engine_plain (source_of ''/dep'') no_values state_app
       = (Returns (Inl (Errorf ''failed to write warning: %w'' (External 9))), state_app)"
    using r h by (simp add: Run_def Let_def source_of_def state_app_def)
  then show ?thesis by (simp add: engine_plain_def)
qed
lemma removeOriginAnnotation_absent:
  "Annotations (removeOriginAnnotation d) = Some m \<Longrightarrow> m ''config.kubernetes.io/origin'' = None"
  by (auto simp: removeOriginAnnotation_def GetAnnotations_def SetAnnotations_def split: option.splits)

lemma Run_documents:
  assumes "Run E e input vals s = (Returns (Inr docs), s')"
    and "readKustomization E (fs e) (Source_Path input) (fsw (World s)) = Inr (kust, name)"
  shows "\<exists>rm result added.
           convertResources E e rm (Source_Path input) = Inr result
         \<and> docs = (if added then map removeOriginAnnotation result else result)
         \<and> (added \<longleftrightarrow> SourceAnnotations (opts e) \<and> OriginAnnotations \<notin> set (BuildMetadata kust))"
proof -
  obtain r1 s1 where hw: "handle_warnings E e kust s = (r1, s1)"
    by (cases "handle_warnings E e kust s")
  have r1: "r1 = None"
    using assms hw by (cases r1) (simp_all add: Run_def Let_def)
  obtain pr w2 where pf: "prepareFilesystem E e (Source_Path input) kust name vals (fsw (World s1)) = (pr, w2)"
    by (cases "prepareFilesystem E e (Source_Path input) kust name vals (fsw (World s1))")
  obtain fsys added where pr: "pr = Inr (fsys, added)"
    using assms hw r1 pf by (cases pr) (auto simp: Run_def Let_def)
  have ad: "added \<longleftrightarrow> SourceAnnotations (opts e) \<and> OriginAnnotations \<notin> set (BuildMetadata kust)"
    using pf pr by (intro prepareFilesystem_added) simp
  let ?restrictions = "if Source_LoadRestrictions input \<noteq> LoadRestrictionsUnknown
                       then Source_LoadRestrictions input else LoadRestrictions (opts e)"
  obtain out s3 where ss: "SuppressStderr (os_Pipe E) (file_Close E)
        (run_closure E ?restrictions fsys (Source_Path input))
        (s1\<lparr>World := (World s1)\<lparr>fsw := w2\<rparr>\<rparr>) = (out, s3)"
    by (cases "SuppressStderr (os_Pipe E) (file_Close E)
        (run_closure E ?restrictions fsys (Source_Path input))
        (s1\<lparr>World := (World s1)\<lparr>fsw := w2\<rparr>\<rparr>)")
  have run: "Run E e input vals s =
      (case out of
         Panics msg \<Rightarrow> (Panics msg, s3)
       | Returns (Some err) \<Rightarrow>
           (Returns (Inl (Errorf2 ''failed to run kustomize for path %q: %w'' (Source_Path input) err)), s3)
       | Returns None \<Rightarrow>
          (case apply_plugins (Plugins (opts e)) (Source_Path input) (resMap_var (World s3)) of
             Inl err \<Rightarrow> (Returns (Inl err), s3)
           | Inr rm \<Rightarrow>
              (case convertResources E e rm (Source_Path input) of
                 Inl err \<Rightarrow> (Returns (Inl err), s3)
               | Inr result \<Rightarrow>
                  (Returns (Inr (if added then map removeOriginAnnotation result else result)), s3))))"
    using assms(2) hw r1 pf pr ss by (simp add: Run_def Let_def)
  have out: "out = Returns None"
    using assms(1) run by (auto split: outcome.splits option.splits)
  obtain rm where ap: "apply_plugins (Plugins (opts e)) (Source_Path input) (resMap_var (World s3)) = Inr rm"
    using assms(1) run out
    by (cases "apply_plugins (Plugins (opts e)) (Source_Path input) (resMap_var (World s3))") auto
  obtain result where cv: "convertResources E e rm (Source_Path input) = Inr result"
    using assms(1) run out ap
    by (cases "convertResources E e rm (Source_Path input)") auto
  have "docs = (if added then map removeOriginAnnotation result else result)"
    using assms(1) run out ap cv by simp
  then show ?thesis using cv ad by blast
qed

text \<open>
  C6.  Of a render that returns documents: when the render itself added the origin
  annotations to the kustomization (source annotations enabled, and the kustomization as
  read did not request them), the documents are the converted resources with
  removeOriginAnnotation applied to each, so none carries config.kubernetes.io/origin;
  otherwise the documents are the converted resources as they are, nothing stripped.
\<close>

theorem origin_annotation_stripped:
  assumes "Run E e input vals s = (Returns (Inr docs), s')"
    and "readKustomization E (fs e) (Source_Path input) (fsw (World s)) = Inr (kust, name)"
  shows "(SourceAnnotations (opts e) \<and> OriginAnnotations \<notin> set (BuildMetadata kust)
            \<longrightarrow> (\<forall>d\<in>set docs. \<forall>m. Annotations d = Some m \<longrightarrow> m ''config.kubernetes.io/origin'' = None)
              \<and> (\<exists>rm result. convertResources E e rm (Source_Path input) = Inr result
                     \<and> docs = map removeOriginAnnotation result))
       \<and> (\<not> (SourceAnnotations (opts e) \<and> OriginAnnotations \<notin> set (BuildMetadata kust))
            \<longrightarrow> (\<exists>rm. convertResources E e rm (Source_Path input) = Inr docs))"
proof -
  obtain rm result added where cv: "convertResources E e rm (Source_Path input) = Inr result"
    and docs: "docs = (if added then map removeOriginAnnotation result else result)"
    and ad: "added \<longleftrightarrow> SourceAnnotations (opts e) \<and> OriginAnnotations \<notin> set (BuildMetadata kust)"
    using Run_documents [OF assms] by (elim exE conjE) (rule that, assumption+)
  show ?thesis
  proof (cases added)
    case True
    then have d: "docs = map removeOriginAnnotation result" using docs by simp
    have "\<forall>d\<in>set docs. \<forall>m. Annotations d = Some m \<longrightarrow> m ''config.kubernetes.io/origin'' = None"
      unfolding d using removeOriginAnnotation_absent by auto
    then show ?thesis using True ad cv d by blast
  next
    case False
    then have "docs = result" using docs by simp
    then show ?thesis using False ad cv by blast
  qed
qed
lemma read_app:
  "readKustomization env0 (adapter_New table_lib (MemMapFs 0)) ''/app'' world_app
     = Inr (parse_kust ''resources'', ''kustomization.yaml'')"
  by (simp add: env0_def read_from_dir_def adapter_New_def table_lib_def world_app_def)

lemma read_meta:
  "readKustomization env0 (adapter_New table_lib (MemMapFs 0)) ''/meta'' world_app
     = Inr (parse_kust ''originAnnotations'', ''kustomization.yaml'')"
  by (simp add: env0_def read_from_dir_def adapter_New_def table_lib_def world_app_def)

lemma prepare_app_sa:
  "fst (prepareFilesystem env0 engine_sa ''/app'' (parse_kust ''resources'') ''kustomization.yaml'' no_values world_app)
     = Inr (adapter_New table_lib (CopyOnWriteFs (MemMapFs 0) (MemMapFs 1)), True)"
  by (simp add: prepareFilesystem_def engine_sa_def no_values_def cleaned_app
      synthetic_overrides_def parse_kust_def env0_def NewFs_def NewMemoryFs_def Let_def
      OriginAnnotations_def marshal_kust_def)
     (simp add: table_lib_def world_app_def adapter_New_def at_loc_def)

lemma convert_sa:
  "convertResources env0 engine_sa [res0] p =
     Inr [\<lparr> Annotations = Some ([''config.kubernetes.io/origin'' \<mapsto> ''path: configmap.yaml'',
                            ''k8s-manifest-kit.io/renderer'' \<mapsto> ''kustomize'',
                            ''k8s-manifest-kit.io/source.path'' \<mapsto> p,
                            ''k8s-manifest-kit.io/source.file'' \<mapsto> ''configmap.yaml'']),
            Object = ''ConfigMap'' \<rparr>]"
  by (simp add: res0_def env0_def from_unstructured_def addSourceAnnotationsToObject_def engine_sa_def
      GetAnnotations_def SetAnnotations_def Let_def)

lemma strip_doc:
  "removeOriginAnnotation \<lparr> Annotations = Some ([''config.kubernetes.io/origin'' \<mapsto> ''path: configmap.yaml'',
                            ''k8s-manifest-kit.io/renderer'' \<mapsto> ''kustomize'',
                            ''k8s-manifest-kit.io/source.path'' \<mapsto> ''/app'',
                            ''k8s-manifest-kit.io/source.file'' \<mapsto> ''configmap.yaml'']),
            Object = ''ConfigMap'' \<rparr> = doc_app"
  by (auto simp: removeOriginAnnotation_def GetAnnotations_def SetAnnotations_def doc_app_def fun_eq_iff)

lemma suppress_env0:
  "\<exists>s3. SuppressStderr (os_Pipe env0) (file_Close env0) (run_closure env0 r fsys p) s = (Returns None, s3)
        \<and> resMap_var (World s3) = [res0]"
  by (simp add: SuppressStderr_def env0_def rpipe_ok_def rclose_def run_closure_def build_one_def)

lemma run_app_sa:
  "fst (Run env0 engine_sa (source_of ''/app'') no_values state_app) = Returns (Inr [doc_app])"
proof -
  obtain w2 where pf: "prepareFilesystem env0 engine_sa ''/app'' (parse_kust ''resources'') ''kustomization.yaml'' no_values world_app
     = (Inr (adapter_New table_lib (CopyOnWriteFs (MemMapFs 0) (MemMapFs 1)), True), w2)"
    using prepare_app_sa by (metis prod.collapse)
  have hw: "handle_warnings env0 engine_sa (parse_kust ''resources'') state_app = (None, state_app)"
    by (simp add: handle_warnings_def env0_def check_deprecated_def parse_kust_def)
  have pf': "prepareFilesystem env0 engine_sa ''/app'' (parse_kust ''resources'') ''kustomization.yaml'' no_values
        (fsw (World state_app))
     = (Inr (adapter_New table_lib (CopyOnWriteFs (MemMapFs 0) (MemMapFs 1)), True), w2)"
    using pf by (simp add: state_app_def)
  have rd': "readKustomization env0 (fs engine_sa) ''/app'' (fsw (World state_app))
     = Inr (parse_kust ''resources'', ''kustomization.yaml'')"
    using read_app by (simp add: engine_sa_def state_app_def)
  have pl: "Plugins (opts engine_sa) = []" by (simp add: engine_sa_def)
  obtain s3 where ss: "SuppressStderr (os_Pipe env0) (file_Close env0)
        (run_closure env0 (LoadRestrictions (opts engine_sa))
           (adapter_New table_lib (CopyOnWriteFs (MemMapFs 0) (MemMapFs 1))) ''/app'')
        (state_app\<lparr>World := (World state_app)\<lparr>fsw := w2\<rparr>\<rparr>) = (Returns None, s3)"
    and rm: "resMap_var (World s3) = [res0]"
    using suppress_env0 by blast
  show ?thesis
    using ss rm
    by (simp add: Run_def Let_def source_of_def rd' hw pf' pl convert_sa strip_doc
        del: convertResources.simps)
qed
lemma run_meta_sa:
  "fst (Run env0 engine_sa (source_of ''/meta'') no_values state_app) = Returns (Inr [doc_meta])"
proof -
  have hw: "handle_warnings env0 engine_sa (parse_kust ''originAnnotations'') state_app = (None, state_app)"
    by (simp add: handle_warnings_def env0_def check_deprecated_def parse_kust_def)
  have pf': "prepareFilesystem env0 engine_sa ''/meta'' (parse_kust ''originAnnotations'') ''kustomization.yaml'' no_values
        (fsw (World state_app))
     = (Inr (adapter_New table_lib (CopyOnWriteFs (MemMapFs 0) (MemMapFs 1)), False),
        world_app\<lparr>store := (store world_app)(Mem 1 := []), fresh := 2\<rparr>)"
    using prepare_meta by (simp add: state_app_def)
  have rd': "readKustomization env0 (fs engine_sa) ''/meta'' (fsw (World state_app))
     = Inr (parse_kust ''originAnnotations'', ''kustomization.yaml'')"
    using read_meta by (simp add: engine_sa_def state_app_def)
  have pl: "Plugins (opts engine_sa) = []" by (simp add: engine_sa_def)
  obtain s3 where ss: "SuppressStderr (os_Pipe env0) (file_Close env0)
        (run_closure env0 (LoadRestrictions (opts engine_sa))
           (adapter_New table_lib (CopyOnWriteFs (MemMapFs 0) (MemMapFs 1))) ''/meta'')
        (state_app\<lparr>World := (World state_app)
            \<lparr>fsw := world_app\<lparr>store := (store world_app)(Mem 1 := []), fresh := 2\<rparr>\<rparr>\<rparr>) = (Returns None, s3)"
    and rm: "resMap_var (World s3) = [res0]"
    using suppress_env0 by blast
  show ?thesis
    using ss rm
    by (simp add: Run_def Let_def source_of_def rd' hw pf' pl convert_sa doc_meta_def
        del: convertResources.simps)
qed

theorem origin_annotation_stripped_witness:
  "fst (Run env0 engine_sa (source_of ''/app'') no_values state_app) = Returns (Inr [doc_app])
   \<and> map_option (\<lambda>m. m ''config.kubernetes.io/origin'') (Annotations doc_app) = Some None
   \<and> fst (Run env0 engine_sa (source_of ''/meta'') no_values state_app) = Returns (Inr [doc_meta])
   \<and> (\<exists>rm. convertResources env0 engine_sa rm ''/meta'' = Inr [doc_meta])"
proof -
  let ?app = "Run env0 engine_sa (source_of ''/app'') no_values state_app"
  let ?meta = "Run env0 engine_sa (source_of ''/meta'') no_values state_app"
  have ra: "?app = (Returns (Inr [doc_app]), snd ?app)"
    using run_app_sa by (metis prod.collapse)
  have rm: "?meta = (Returns (Inr [doc_meta]), snd ?meta)"
    using run_meta_sa by (metis prod.collapse)
  have rda: "readKustomization env0 (fs engine_sa) (Source_Path (source_of ''/app'')) (fsw (World state_app))
     = Inr (parse_kust ''resources'', ''kustomization.yaml'')"
    using read_app by (simp add: engine_sa_def state_app_def source_of_def)
  have rdm: "readKustomization env0 (fs engine_sa) (Source_Path (source_of ''/meta'')) (fsw (World state_app))
     = Inr (parse_kust ''originAnnotations'', ''kustomization.yaml'')"
    using read_meta by (simp add: engine_sa_def state_app_def source_of_def)
  have ca: "SourceAnnotations (opts engine_sa) \<and> OriginAnnotations \<notin> set (BuildMetadata (parse_kust ''resources''))"
    by (simp add: engine_sa_def parse_kust_def)
  have cm: "\<not> (SourceAnnotations (opts engine_sa)
              \<and> OriginAnnotations \<notin> set (BuildMetadata (parse_kust ''originAnnotations'')))"
    by (simp add: parse_kust_def)
  have "\<forall>m. Annotations doc_app = Some m \<longrightarrow> m ''config.kubernetes.io/origin'' = None"
    using origin_annotation_stripped [OF ra rda] ca by simp
  then have 1: "map_option (\<lambda>m. m ''config.kubernetes.io/origin'') (Annotations doc_app) = Some None"
    by (simp add: doc_app_def)
  have 2: "\<exists>rm. convertResources env0 engine_sa rm ''/meta'' = Inr [doc_meta]"
    using origin_annotation_stripped [OF rm rdm] cm by (simp add: source_of_def)
  show ?thesis using run_app_sa 1 run_meta_sa 2 by (intro conjI)
qed

end
